theory Spec2Isabelle
  imports Main "HOL-Library.Sublist"
begin

section \<open>Automatic folders: date-named files filed under year and month folders\<close>

text \<open>
  A shallow embedding of \<^verbatim>\<open>src/main.ts\<close> (class \<^verbatim>\<open>AutomaticFoldersPlugin\<close>).
  The plugin is glue between two libraries it imports: the date library (strict parsing,
  formatting, the current date) and the host's vault (existence check, folder creation,
  path lookup, rename). Neither is code of the plugin, so both are parameters of the model:
  every function below takes a \<open>host\<close> record holding their operations, and the theorems
  hold for every host unless they say otherwise.
\<close>

subsection \<open>Data model\<close>

text \<open>The interface \<^verbatim>\<open>AutomaticFoldersSettings\<close>, field by field.\<close>

record settings =
  baseJournalFolder :: string
  createYearFolders :: bool
  createMonthFolders :: bool
  dailyNoteFormat :: string
  monthlyFolderFormat :: string
  yearlyFolderFormat :: string

text \<open>The constant \<^verbatim>\<open>DEFAULT_SETTINGS\<close>.\<close>

definition DEFAULT_SETTINGS :: settings where
  "DEFAULT_SETTINGS =
     \<lparr>baseJournalFolder = ''1 - journal'',
      createYearFolders = True,
      createMonthFolders = True,
      dailyNoteFormat = ''YYYY-MM-DD'',
      monthlyFolderFormat = ''MM-YYYY'',
      yearlyFolderFormat = ''YYYY''\<rparr>"

text \<open>
  A file handle (\<^verbatim>\<open>TFile\<close>): the plugin reads its \<^verbatim>\<open>path\<close> and its \<^verbatim>\<open>name\<close> only.
  What \<^verbatim>\<open>getAbstractFileByPath\<close> returns is a file, a folder with its children, or null.
\<close>

record tfile =
  path :: string
  name :: string

datatype abstract_file =
  File tfile
| Folder string "abstract_file list"

text \<open>A rejected promise or thrown error of a vault operation.\<close>

datatype fault = Fault string

text \<open>
  What a run leaves behind besides the vault: the console lines and the mutating calls it
  issued to the vault, each call with its outcome (\<open>None\<close>: it succeeded).
\<close>

datatype event =
  ConsoleLog string
| ConsoleError string "fault option"
| CreateFolderCall string "fault option"
| RenameCall tfile string "fault option"

record 'v world =
  vault :: 'v
  trace :: "event list"

text \<open>
  The operations the plugin imports.
  \<^item> \<open>parse_strict s fmt\<close> is \<^verbatim>\<open>moment(s, fmt, true)\<close>: \<open>None\<close> when \<^verbatim>\<open>isValid()\<close> is false;
  \<^item> \<open>format d fmt\<close> is \<^verbatim>\<open>d.format(fmt)\<close>; \<open>now\<close> is \<^verbatim>\<open>moment()\<close>, one current date for a run;
  \<^item> \<open>adapter_exists\<close>, \<open>createFolder\<close> and \<open>rename\<close> are awaited and may reject; a
    mutating operation returns the fault, if any, and the vault it leaves;
  \<^item> \<open>getAbstractFileByPath\<close> is synchronous and returns null (\<open>None\<close>) for an unknown path.
\<close>

record ('v, 'd) host =
  parse_strict :: "string \<Rightarrow> string \<Rightarrow> 'd option"
  format :: "'d \<Rightarrow> string \<Rightarrow> string"
  now :: "'d"
  adapter_exists :: "'v \<Rightarrow> string \<Rightarrow> fault + bool"
  createFolder :: "'v \<Rightarrow> string \<Rightarrow> fault option \<times> 'v"
  rename :: "'v \<Rightarrow> tfile \<Rightarrow> string \<Rightarrow> fault option \<times> 'v"
  getAbstractFileByPath :: "'v \<Rightarrow> string \<Rightarrow> abstract_file option"

definition emit :: "event \<Rightarrow> 'v world \<Rightarrow> 'v world" where
  "emit e w = w\<lparr>trace := trace w @ [e]\<rparr>"

subsection \<open>Extension stripping\<close>

text \<open>
  \<^verbatim>\<open>file.name.replace(/\.[^/.]+$/, "")\<close>: the regular expression matches a dot followed
  by one or more characters, none of them a slash or a dot, up to the end of the string.
  \<open>replaceExt\<close> scans from the left, as the regular expression engine does, and deletes
  the first match (the expression has no \<^verbatim>\<open>g\<close> flag; a match reaches the end of the
  string, so there is at most one).
\<close>

definition extChar :: "char \<Rightarrow> bool" where
  "extChar c = (c \<noteq> CHR ''/'' \<and> c \<noteq> CHR ''.'')"

fun replaceExt :: "string \<Rightarrow> string" where
  "replaceExt [] = []"
| "replaceExt (c # cs) =
     (if c = CHR ''.'' \<and> cs \<noteq> [] \<and> list_all extChar cs then [] else c # replaceExt cs)"

definition fileBaseName :: "tfile \<Rightarrow> string" where
  "fileBaseName file = replaceExt (name file)"

subsection \<open>The plugin's methods\<close>

text \<open>\<^verbatim>\<open>ensureFolderExists\<close>: create the folder unless the adapter says the path exists.\<close>

definition ensureFolderExists ::
  "('v, 'd) host \<Rightarrow> string \<Rightarrow> 'v world \<Rightarrow> (fault + unit) \<times> 'v world" where
  "ensureFolderExists h folderPath w =
     (case adapter_exists h (vault w) folderPath of
        Inl e \<Rightarrow> (Inl e, w)
      | Inr True \<Rightarrow> (Inr (), w)
      | Inr False \<Rightarrow>
          (case createFolder h (vault w) folderPath of
             (Some e, v') \<Rightarrow> (Inl e, emit (CreateFolderCall folderPath (Some e)) (w\<lparr>vault := v'\<rparr>))
           | (None, v') \<Rightarrow> (Inr (), emit (CreateFolderCall folderPath None) (w\<lparr>vault := v'\<rparr>))))"

text \<open>\<^verbatim>\<open>ensureCurrentFolderExists\<close>: today's year folder, then today's month folder.\<close>

definition ensureCurrentFolderExists ::
  "('v, 'd) host \<Rightarrow> settings \<Rightarrow> 'v world \<Rightarrow> (fault + unit) \<times> 'v world" where
  "ensureCurrentFolderExists h cfg w =
     (let yearString = format h (now h) (yearlyFolderFormat cfg);
          monthString = format h (now h) (monthlyFolderFormat cfg);
          yearlyFolderPath = baseJournalFolder cfg @ ''/'' @ yearString;
          monthlyFolderPath = baseJournalFolder cfg @ ''/'' @ yearString @ ''/'' @ monthString
      in case ensureFolderExists h yearlyFolderPath w of
           (Inl e, w1) \<Rightarrow> (Inl e, w1)
         | (Inr _, w1) \<Rightarrow> ensureFolderExists h monthlyFolderPath w1)"

text \<open>
  The constant \<^verbatim>\<open>targetFolderPath\<close> of \<^verbatim>\<open>handleOldDailyFile\<close>:
  \<^verbatim>\<open>`${baseFolder}/${fileYearString}/${fileMonthString}`\<close>.
\<close>

definition targetFolderPath :: "('v, 'd) host \<Rightarrow> settings \<Rightarrow> 'd \<Rightarrow> string" where
  "targetFolderPath h cfg d =
     baseJournalFolder cfg @ ''/'' @ format h d (yearlyFolderFormat cfg)
       @ ''/'' @ format h d (monthlyFolderFormat cfg)"

text \<open>The \<^verbatim>\<open>try\<close> block of \<^verbatim>\<open>handleOldDailyFile\<close>: the rename, with its fault caught.\<close>

definition moveFile ::
  "('v, 'd) host \<Rightarrow> tfile \<Rightarrow> string \<Rightarrow> 'v world \<Rightarrow> (fault + string option) \<times> 'v world" where
  \<open>moveFile h file target w =
     (let newPath = target @ ''/'' @ name file in
      case rename h (vault w) file newPath of
        (None, v') \<Rightarrow>
          (Inr (Some (name file)),
           emit (ConsoleLog (''Moved "'' @ name file @ ''" to folder: '' @ target))
             (emit (RenameCall file newPath None) (w\<lparr>vault := v'\<rparr>)))
      | (Some e, v') \<Rightarrow>
          (Inr None,
           emit (ConsoleError (''Error moving file "'' @ name file @ ''":'') (Some e))
             (emit (RenameCall file newPath (Some e)) (w\<lparr>vault := v'\<rparr>))))\<close>

text \<open>
  \<^verbatim>\<open>handleOldDailyFile\<close>, in the order of the source: parse, today guard, target, ensure,
  already-placed guard, ensure again, move. The result is \<open>Inl\<close> for a rejected promise,
  \<open>Inr None\<close> for \<^verbatim>\<open>null\<close> and \<open>Inr (Some n)\<close> for the returned file name.
\<close>

definition handleOldDailyFile ::
  "('v, 'd) host \<Rightarrow> settings \<Rightarrow> tfile \<Rightarrow> 'v world \<Rightarrow> (fault + string option) \<times> 'v world" where
  \<open>handleOldDailyFile h cfg file w =
     (case parse_strict h (fileBaseName file) (dailyNoteFormat cfg) of
        None \<Rightarrow>
          (Inr None,
           emit (ConsoleLog (''Could not parse a valid date from file name: '' @ name file)) w)
      | Some getFilesDate \<Rightarrow>
          if fileBaseName file = format h (now h) (dailyNoteFormat cfg) then
            (Inr None, emit (ConsoleLog (''Skipping today's file: '' @ name file)) w)
          else
            (let target = targetFolderPath h cfg getFilesDate in
             case ensureFolderExists h target w of
               (Inl e, w1) \<Rightarrow> (Inl e, w1)
             | (Inr _, w1) \<Rightarrow>
                 if prefix target (path file) then
                   (Inr None,
                    emit (ConsoleLog
                      (''Skipping "'' @ name file @ ''" (already in correct folder)'')) w1)
                 else
                   (case ensureFolderExists h target w1 of
                      (Inl e, w2) \<Rightarrow> (Inl e, w2)
                    | (Inr _, w2) \<Rightarrow> moveFile h file target w2)))\<close>

text \<open>
  The array \<^verbatim>\<open>journalFolder.children\<close> belongs to the host, which changes it in place
  when a file is created, moved or deleted. The host keeps one folder object per path, so
  what the array holds at a given moment is the children of the folder that the lookup of
  the journal folder gives in the vault of that moment; a host that has no folder there any
  more has nothing left to list.
\<close>

definition journalChildren :: "('v, 'd) host \<Rightarrow> settings \<Rightarrow> 'v \<Rightarrow> abstract_file list" where
  "journalChildren h cfg v =
     (case getAbstractFileByPath h v (baseJournalFolder cfg) of
        Some (Folder p children) \<Rightarrow> children
      | _ \<Rightarrow> [])"

text \<open>
  The \<^verbatim>\<open>for (const file of journalFolder.children)\<close> loop of \<^verbatim>\<open>organizeExistingFiles\<close>.
  The array iterator keeps an index \<open>i\<close> and at every step reads the array as it is then:
  it stops when \<open>i\<close> has reached the current length, and otherwise takes entry \<open>i\<close> and
  moves on to \<open>i + 1\<close>. No copy of the array is made, so entries that the host removes or
  adds while the loop runs shift what later steps see. A child that is a file is handled,
  any other child is passed over, and a rejected \<^verbatim>\<open>await\<close> leaves the loop. The result is
  \<open>None\<close> when the loop never ends (a host may lengthen the array at every step).
\<close>

partial_function (option) organizeLoop ::
  "('v, 'd) host \<Rightarrow> settings \<Rightarrow> nat \<Rightarrow> 'v world \<Rightarrow> ((fault + unit) \<times> 'v world) option" where
  "organizeLoop h cfg i w =
     (if i < length (journalChildren h cfg (vault w)) then
        (case journalChildren h cfg (vault w) ! i of
           Folder p cs \<Rightarrow> organizeLoop h cfg (Suc i) w
         | File file \<Rightarrow>
             (case handleOldDailyFile h cfg file w of
                (Inl e, w') \<Rightarrow> Some (Inl e, w')
              | (Inr r, w') \<Rightarrow> organizeLoop h cfg (Suc i) w'))
      else Some (Inr (), w))"

definition organizeExistingFiles ::
  "('v, 'd) host \<Rightarrow> settings \<Rightarrow> 'v world \<Rightarrow> ((fault + unit) \<times> 'v world) option" where
  \<open>organizeExistingFiles h cfg w =
     (case getAbstractFileByPath h (vault w) (baseJournalFolder cfg) of
        Some (Folder p children) \<Rightarrow> organizeLoop h cfg 0 w
      | _ \<Rightarrow>
          Some (Inr (),
            emit (ConsoleError (''Folder "'' @ baseJournalFolder cfg @ ''" not found.'') None) w))\<close>

subsection \<open>What a sweep relies on in the vault\<close>




subsection \<open>A small host to run the plugin on\<close>

text \<open>
  An in-memory host for the concrete runs below. Dates are year, month and day as digit
  strings; the only daily format it parses is \<^verbatim>\<open>YYYY-MM-DD\<close>, strictly. The vault is a list
  of folder paths and a list of file paths; a read-only vault rejects every mutation, and
  a rename onto an existing path is rejected.
\<close>

record ymd =
  year :: string
  month :: string
  day :: string

definition isDigit :: "char \<Rightarrow> bool" where
  "isDigit c = (c \<in> set ''0123456789'')"

fun demo_parse_ymd :: "string \<Rightarrow> ymd option" where
  "demo_parse_ymd [y1, y2, y3, y4, s1, m1, m2, s2, d1, d2] =
     (if s1 = CHR ''-'' \<and> s2 = CHR ''-'' \<and> list_all isDigit [y1, y2, y3, y4, m1, m2, d1, d2]
         \<and> [m1, m2] \<in> set [''01'', ''02'', ''03'', ''04'', ''05'', ''06'',
                             ''07'', ''08'', ''09'', ''10'', ''11'', ''12'']
         \<and> [d1, d2] \<noteq> ''00'' \<and> d1 \<in> set ''0123''
      then Some \<lparr>year = [y1, y2, y3, y4], month = [m1, m2], day = [d1, d2]\<rparr>
      else None)"
| "demo_parse_ymd _ = None"

definition demo_parse :: "string \<Rightarrow> string \<Rightarrow> ymd option" where
  "demo_parse s fmt = (if fmt = ''YYYY-MM-DD'' then demo_parse_ymd s else None)"

definition demo_format :: "ymd \<Rightarrow> string \<Rightarrow> string" where
  "demo_format d fmt =
     (if fmt = ''YYYY'' then year d
      else if fmt = ''MM'' then month d
      else if fmt = ''MM-YYYY'' then month d @ ''-'' @ year d
      else if fmt = ''YYYY-MM-DD'' then year d @ ''-'' @ month d @ ''-'' @ day d
      else fmt)"

record demo_vault =
  folders :: "string list"
  files :: "string list"
  readOnly :: bool

definition demo_exists :: "demo_vault \<Rightarrow> string \<Rightarrow> fault + bool" where
  "demo_exists v p = Inr (p \<in> set (folders v) \<or> p \<in> set (files v))"

definition demo_createFolder :: "demo_vault \<Rightarrow> string \<Rightarrow> fault option \<times> demo_vault" where
  "demo_createFolder v p =
     (if readOnly v then (Some (Fault ''EACCES: permission denied''), v)
      else if p \<in> set (folders v) \<or> p \<in> set (files v) then
        (Some (Fault ''Folder already exists.''), v)
      else (None, v\<lparr>folders := folders v @ [p]\<rparr>))"

definition demo_rename :: "demo_vault \<Rightarrow> tfile \<Rightarrow> string \<Rightarrow> fault option \<times> demo_vault" where
  "demo_rename v f p =
     (if readOnly v then (Some (Fault ''EACCES: permission denied''), v)
      else if path f \<notin> set (files v) then (Some (Fault ''ENOENT: no such file''), v)
      else if p \<in> set (folders v) \<or> p \<in> set (files v) then
        (Some (Fault ''Destination file already exists!''), v)
      else (None, v\<lparr>files := removeAll (path f) (files v) @ [p]\<rparr>))"

text \<open>
  \<open>demo_childName dir q\<close> is the name of \<open>q\<close> when \<open>q\<close> lies directly in \<open>dir\<close>. A listed
  subfolder carries no children of its own: the plugin never reads them.
\<close>

definition demo_childName :: "string \<Rightarrow> string \<Rightarrow> string option" where
  "demo_childName dir q =
     (let n = drop (length dir + 1) q in
      if prefix (dir @ ''/'') q \<and> n \<noteq> [] \<and> CHR ''/'' \<notin> set n then Some n else None)"

definition demo_children :: "demo_vault \<Rightarrow> string \<Rightarrow> abstract_file list" where
  "demo_children v dir =
     List.map_filter
       (\<lambda>q. map_option (\<lambda>n. File \<lparr>path = q, name = n\<rparr>) (demo_childName dir q)) (files v)
     @ List.map_filter
       (\<lambda>q. map_option (\<lambda>n. Folder q []) (demo_childName dir q)) (folders v)"

definition demo_basename :: "string \<Rightarrow> string" where
  "demo_basename p = rev (takeWhile (\<lambda>c. c \<noteq> CHR ''/'') (rev p))"

definition demo_getAbstractFileByPath :: "demo_vault \<Rightarrow> string \<Rightarrow> abstract_file option" where
  "demo_getAbstractFileByPath v p =
     (if p \<in> set (folders v) then Some (Folder p (demo_children v p))
      else if p \<in> set (files v) then Some (File \<lparr>path = p, name = demo_basename p\<rparr>)
      else None)"

definition demo_host :: "ymd \<Rightarrow> (demo_vault, ymd) host" where
  "demo_host today =
     \<lparr>parse_strict = demo_parse,
      format = demo_format,
      now = today,
      adapter_exists = demo_exists,
      createFolder = demo_createFolder,
      rename = demo_rename,
      getAbstractFileByPath = demo_getAbstractFileByPath\<rparr>"

text \<open>The first of June 2025, and a file named after the fifteenth of January.\<close>

definition june1 :: ymd where
  "june1 = \<lparr>year = ''2025'', month = ''06'', day = ''01''\<rparr>"

definition jan15 :: ymd where
  "jan15 = \<lparr>year = ''2025'', month = ''01'', day = ''15''\<rparr>"

definition jan15_md :: tfile where
  "jan15_md = \<lparr>path = ''1 - journal/2025-01-15.md'', name = ''2025-01-15.md''\<rparr>"

definition flat_vault :: demo_vault where
  "flat_vault =
     \<lparr>folders = [''1 - journal''],
      files = [''1 - journal/2025-01-15.md'', ''1 - journal/notes.md''],
      readOnly = False\<rparr>"

definition notes_md :: tfile where
  "notes_md = \<lparr>path = ''1 - journal/notes.md'', name = ''notes.md''\<rparr>"

definition june1_md :: tfile where
  "june1_md = \<lparr>path = ''1 - journal/2025-06-01.md'', name = ''2025-06-01.md''\<rparr>"

text \<open>A vault with no journal folder.\<close>

definition bare_vault :: demo_vault where
  "bare_vault = \<lparr>folders = [], files = [''notes.md''], readOnly = False\<rparr>"

text \<open>Short folder names, as in the loose-prefix example: target \<^verbatim>\<open>j/2025/03\<close>.\<close>

definition short_settings :: settings where
  "short_settings = DEFAULT_SETTINGS\<lparr>baseJournalFolder := ''j'', monthlyFolderFormat := ''MM''\<rparr>"

definition mar10 :: ymd where
  "mar10 = \<lparr>year = ''2025'', month = ''03'', day = ''10''\<rparr>"

definition extra_md :: tfile where
  "extra_md = \<lparr>path = ''j/2025/030-extra/2025-03-10.md'', name = ''2025-03-10.md''\<rparr>"

definition extra_vault :: demo_vault where
  "extra_vault =
     \<lparr>folders = [''j'', ''j/2025'', ''j/2025/030-extra''],
      files = [''j/2025/030-extra/2025-03-10.md''],
      readOnly = False\<rparr>"

text \<open>A vault where the destination of the January file is taken.\<close>

definition clash_vault :: demo_vault where
  "clash_vault =
     \<lparr>folders = [''1 - journal'', ''1 - journal/2025'', ''1 - journal/2025/01-2025''],
      files = [''1 - journal/2025-01-15.md'', ''1 - journal/notes.md'',
               ''1 - journal/2025/01-2025/2025-01-15.md''],
      readOnly = False\<rparr>"

text \<open>A file named like a date, with no extension.\<close>

definition bare_jan15 :: tfile where
  "bare_jan15 = \<lparr>path = ''1 - journal/2025-01-15'', name = ''2025-01-15''\<rparr>"

definition bare_name_vault :: demo_vault where
  "bare_name_vault =
     \<lparr>folders = [''1 - journal'', ''1 - journal/2025'', ''1 - journal/2025/01-2025''],
      files = [''1 - journal/2025-01-15''],
      readOnly = False\<rparr>"

text \<open>
  A journal folder with three dated files, the destination of the first one taken.
\<close>

definition feb20_md :: tfile where
  "feb20_md = \<lparr>path = ''1 - journal/2025-02-20.md'', name = ''2025-02-20.md''\<rparr>"

definition mar05_md :: tfile where
  "mar05_md = \<lparr>path = ''1 - journal/2025-03-05.md'', name = ''2025-03-05.md''\<rparr>"

definition queue_vault :: demo_vault where
  "queue_vault =
     \<lparr>folders = [''1 - journal'', ''1 - journal/2025'', ''1 - journal/2025/01-2025''],
      files = [''1 - journal/2025-01-15.md'', ''1 - journal/2025-02-20.md'',
               ''1 - journal/2025-03-05.md'', ''1 - journal/2025/01-2025/2025-01-15.md''],
      readOnly = False\<rparr>"

subsection \<open>Auxiliary facts\<close>

text \<open>The unfolding rules used to run the plugin on the small host.\<close>

lemmas demo_simps = demo_host_def demo_parse_def demo_format_def demo_exists_def
  demo_createFolder_def demo_rename_def isDigit_def DEFAULT_SETTINGS_def short_settings_def
  fileBaseName_def extChar_def targetFolderPath_def ensureFolderExists_def emit_def
  june1_def jan15_def mar10_def jan15_md_def notes_md_def extra_md_def
  flat_vault_def clash_vault_def extra_vault_def bare_jan15_def bare_name_vault_def
  feb20_md_def mar05_md_def queue_vault_def

text \<open>\<open>ensureFolderExists\<close> issues no rename.\<close>

lemma ensureFolderExists_renames:
  assumes "ensureFolderExists h p w = (r, w1)" and "RenameCall g q out \<in> set (trace w1)"
  shows "RenameCall g q out \<in> set (trace w)"
  using assms
  by (auto simp: ensureFolderExists_def emit_def split: sum.splits bool.splits prod.splits
      option.splits)

lemma handle_reaches_move:
  assumes "parse_strict h (fileBaseName file) (dailyNoteFormat cfg) = Some d"
    and "fileBaseName file \<noteq> format h (now h) (dailyNoteFormat cfg)"
    and "\<not> prefix (targetFolderPath h cfg d) (path file)"
    and "ensureFolderExists h (targetFolderPath h cfg d) w = (Inr (), w1)"
    and "ensureFolderExists h (targetFolderPath h cfg d) w1 = (Inr (), w2)"
  shows "handleOldDailyFile h cfg file w = moveFile h file (targetFolderPath h cfg d) w2"
  using assms by (simp add: handleOldDailyFile_def)

text \<open>
  The regular expression at work: a name without a dot is left alone, a last dot followed
  by a non-empty run free of dots and slashes is cut off with that run, and nothing else
  changes a name.
\<close>

lemma replaceExt_no_dot: "CHR ''.'' \<notin> set n \<Longrightarrow> replaceExt n = n"
  by (induction n) auto

lemma replaceExt_suffix:
  assumes "e \<noteq> []" and "list_all extChar e"
  shows "replaceExt (b @ ''.'' @ e) = b"
  using assms
proof (induction b)
  case Nil
  then show ?case by simp
next
  case (Cons c b)
  have "\<not> list_all extChar (b @ ''.'' @ e)"
    by (simp add: extChar_def)
  with Cons show ?case by simp
qed

lemma replaceExt_changed:
  "replaceExt n \<noteq> n \<Longrightarrow> \<exists>b e. n = b @ ''.'' @ e \<and> e \<noteq> [] \<and> list_all extChar e"
proof (induction n)
  case Nil
  then show ?case by simp
next
  case (Cons c cs)
  show ?case
  proof (cases "c = CHR ''.'' \<and> cs \<noteq> [] \<and> list_all extChar cs")
    case True
    then have "c # cs = [] @ ''.'' @ cs \<and> cs \<noteq> [] \<and> list_all extChar cs" by simp
    then show ?thesis by blast
  next
    case False
    with Cons.prems have "replaceExt cs \<noteq> cs" by auto
    from Cons.IH [OF this] obtain b e where "cs = b @ ''.'' @ e" "e \<noteq> []" "list_all extChar e"
      by blast
    then have "c # cs = (c # b) @ ''.'' @ e \<and> e \<noteq> [] \<and> list_all extChar e" by simp
    then show ?thesis by blast
  qed
qed













text \<open>
  A rejected rename is caught inside \<open>handleOldDailyFile\<close>, and a call that returns sends
  the loop on to the next index.
\<close>

lemma rename_fault_caught:
  assumes "parse_strict h (fileBaseName file) (dailyNoteFormat cfg) = Some d"
    and "fileBaseName file \<noteq> format h (now h) (dailyNoteFormat cfg)"
    and "\<not> prefix (targetFolderPath h cfg d) (path file)"
    and "ensureFolderExists h (targetFolderPath h cfg d) w = (Inr (), w1)"
    and "ensureFolderExists h (targetFolderPath h cfg d) w1 = (Inr (), w2)"
    and "rename h (vault w2) file (targetFolderPath h cfg d @ ''/'' @ name file) = (Some e, v')"
  shows \<open>handleOldDailyFile h cfg file w =
           (Inr None,
            w2\<lparr>vault := v',
             trace := trace w2 @
               [RenameCall file (targetFolderPath h cfg d @ ''/'' @ name file) (Some e),
                ConsoleError (''Error moving file "'' @ name file @ ''":'') (Some e)]\<rparr>)\<close>
proof -
  have "handleOldDailyFile h cfg file w = moveFile h file (targetFolderPath h cfg d) w2"
    using assms(1-5) by (rule handle_reaches_move)
  with assms(6) show ?thesis
    by (simp add: moveFile_def emit_def)
qed

lemma organizeLoop_next:
  assumes "i < length (journalChildren h cfg (vault w))"
    and "journalChildren h cfg (vault w) ! i = File file"
    and "handleOldDailyFile h cfg file w = (Inr x, w')"
  shows "organizeLoop h cfg i w = organizeLoop h cfg (Suc i) w'"
  using assms by (subst organizeLoop.simps) simp


subsection \<open>Files that are not dated\<close>

text \<open>
  Claim C3. A file whose base name (extension stripped) does not parse strictly under
  \<open>dailyNoteFormat\<close> is skipped: \<open>handleOldDailyFile\<close> returns null, the vault is the one it
  was given, and the only trace is the console line; no folder is created, no rename issued.
\<close>

theorem not_dated_skipped:
  assumes "parse_strict h (fileBaseName file) (dailyNoteFormat cfg) = None"
  shows "handleOldDailyFile h cfg file w =
           (Inr None,
            w\<lparr>trace := trace w
               @ [ConsoleLog (''Could not parse a valid date from file name: '' @ name file)]\<rparr>)"
  using assms by (simp add: handleOldDailyFile_def emit_def)


theorem not_dated_skipped_witness:
  "parse_strict (demo_host june1) (fileBaseName notes_md) (dailyNoteFormat DEFAULT_SETTINGS) = None
   \<and> handleOldDailyFile (demo_host june1) DEFAULT_SETTINGS notes_md \<lparr>vault = flat_vault, trace = []\<rparr>
       = (Inr None,
          \<lparr>vault = flat_vault,
           trace = [ConsoleLog ''Could not parse a valid date from file name: notes.md'']\<rparr>)"
proof -
  have h: "parse_strict (demo_host june1) (fileBaseName notes_md) (dailyNoteFormat DEFAULT_SETTINGS)
             = None"
    by (simp add: demo_host_def demo_parse_def fileBaseName_def notes_md_def extChar_def
        DEFAULT_SETTINGS_def)
  show ?thesis
    using h not_dated_skipped [OF h, of "\<lparr>vault = flat_vault, trace = []\<rparr>"]
    by (simp add: notes_md_def)
qed

subsection \<open>Today's file\<close>

text \<open>
  Claim C4. A dated file whose base name equals today's date rendered with
  \<open>dailyNoteFormat\<close> (string equality) is skipped: \<open>handleOldDailyFile\<close> returns null, the
  vault is untouched and the only trace is the console line; nothing is moved or created.
\<close>

theorem todays_file_skipped:
  assumes "parse_strict h (fileBaseName file) (dailyNoteFormat cfg) = Some d"
    and "format h (now h) (dailyNoteFormat cfg) = fileBaseName file"
  shows "handleOldDailyFile h cfg file w =
           (Inr None,
            w\<lparr>trace := trace w @ [ConsoleLog (''Skipping today's file: '' @ name file)]\<rparr>)"
  using assms by (simp add: handleOldDailyFile_def emit_def)

theorem todays_file_skipped_witness:
  "parse_strict (demo_host june1) (fileBaseName june1_md) (dailyNoteFormat DEFAULT_SETTINGS)
     = Some june1
   \<and> format (demo_host june1) (now (demo_host june1)) (dailyNoteFormat DEFAULT_SETTINGS)
     = fileBaseName june1_md
   \<and> handleOldDailyFile (demo_host june1) DEFAULT_SETTINGS june1_md
        \<lparr>vault = flat_vault, trace = []\<rparr>
       = (Inr None,
          \<lparr>vault = flat_vault, trace = [ConsoleLog ''Skipping today's file: 2025-06-01.md'']\<rparr>)"
proof -
  have b: "fileBaseName june1_md = ''2025-06-01''"
    by (simp add: fileBaseName_def june1_md_def extChar_def)
  have p: "parse_strict (demo_host june1) (fileBaseName june1_md) (dailyNoteFormat DEFAULT_SETTINGS)
             = Some june1"
    by (simp add: b demo_host_def demo_parse_def DEFAULT_SETTINGS_def isDigit_def june1_def)
  have t: "format (demo_host june1) (now (demo_host june1)) (dailyNoteFormat DEFAULT_SETTINGS)
             = fileBaseName june1_md"
    by (simp add: b demo_host_def demo_format_def DEFAULT_SETTINGS_def june1_def)
  show ?thesis
    using p t todays_file_skipped [OF p t, of "\<lparr>vault = flat_vault, trace = []\<rparr>"]
    by (simp add: june1_md_def)
qed

subsection \<open>A sweep without a journal folder\<close>

text \<open>
  Claim C8. When the base journal folder does not resolve to a folder (the lookup gives
  null or a file), \<open>organizeExistingFiles\<close> logs one error and returns normally: no fault,
  no file handled, the vault untouched.
\<close>

theorem missing_base_folder_noop:
  assumes "\<nexists>p children.
             getAbstractFileByPath h (vault w) (baseJournalFolder cfg) = Some (Folder p children)"
  shows \<open>organizeExistingFiles h cfg w =
           Some (Inr (),
            w\<lparr>trace := trace w
               @ [ConsoleError (''Folder "'' @ baseJournalFolder cfg @ ''" not found.'') None]\<rparr>)\<close>
  using assms
  by (simp add: organizeExistingFiles_def emit_def split: option.splits abstract_file.splits)

theorem missing_base_folder_noop_witness:
  \<open>(\<nexists>p children.
       getAbstractFileByPath (demo_host june1) (vault \<lparr>vault = bare_vault, trace = []\<rparr>)
         (baseJournalFolder DEFAULT_SETTINGS) = Some (Folder p children))
   \<and> organizeExistingFiles (demo_host june1) DEFAULT_SETTINGS \<lparr>vault = bare_vault, trace = []\<rparr>
       = Some (Inr (),
          \<lparr>vault = bare_vault,
           trace = [ConsoleError (''Folder "1 - journal" not found.'') None]\<rparr>)\<close>
proof -
  have h: "\<nexists>p children.
       getAbstractFileByPath (demo_host june1) (vault \<lparr>vault = bare_vault, trace = []\<rparr>)
         (baseJournalFolder DEFAULT_SETTINGS) = Some (Folder p children)"
    by (simp add: demo_host_def demo_getAbstractFileByPath_def bare_vault_def
        DEFAULT_SETTINGS_def)
  show ?thesis
    using h missing_base_folder_noop [OF h]
    by (simp add: DEFAULT_SETTINGS_def)
qed

subsection \<open>The two folder flags\<close>

text \<open>
  Claim C9. \<open>createYearFolders\<close> and \<open>createMonthFolders\<close> are read by neither
  \<open>ensureCurrentFolderExists\<close> nor \<open>handleOldDailyFile\<close>: whatever the two flags are set to,
  both methods return the same result, the same vault and the same trace.
\<close>

theorem folder_flags_unused:
  "ensureCurrentFolderExists h (cfg\<lparr>createYearFolders := a, createMonthFolders := b\<rparr>) w
     = ensureCurrentFolderExists h cfg w
   \<and> handleOldDailyFile h (cfg\<lparr>createYearFolders := a, createMonthFolders := b\<rparr>) file w
     = handleOldDailyFile h cfg file w"
  by (simp add: ensureCurrentFolderExists_def handleOldDailyFile_def targetFolderPath_def
      split: option.split)

theorem folder_flags_unused_witness:
  "ensureCurrentFolderExists (demo_host june1)
     (DEFAULT_SETTINGS\<lparr>createYearFolders := False, createMonthFolders := False\<rparr>)
     \<lparr>vault = flat_vault, trace = []\<rparr>
   = (Inr (),
      \<lparr>vault = flat_vault\<lparr>folders :=
                 [''1 - journal'', ''1 - journal/2025'', ''1 - journal/2025/06-2025'']\<rparr>,
       trace = [CreateFolderCall ''1 - journal/2025'' None,
                CreateFolderCall ''1 - journal/2025/06-2025'' None]\<rparr>)"
proof -
  have "ensureCurrentFolderExists (demo_host june1)
          (DEFAULT_SETTINGS\<lparr>createYearFolders := False, createMonthFolders := False\<rparr>)
          \<lparr>vault = flat_vault, trace = []\<rparr>
        = ensureCurrentFolderExists (demo_host june1) DEFAULT_SETTINGS
            \<lparr>vault = flat_vault, trace = []\<rparr>"
    by (rule conjunct1 [OF folder_flags_unused])
  also have "\<dots> = (Inr (),
      \<lparr>vault = flat_vault\<lparr>folders :=
                 [''1 - journal'', ''1 - journal/2025'', ''1 - journal/2025/06-2025'']\<rparr>,
       trace = [CreateFolderCall ''1 - journal/2025'' None,
                CreateFolderCall ''1 - journal/2025/06-2025'' None]\<rparr>)"
    by (simp add: ensureCurrentFolderExists_def ensureFolderExists_def emit_def demo_host_def
        demo_format_def demo_exists_def demo_createFolder_def DEFAULT_SETTINGS_def june1_def
        flat_vault_def Let_def)
  finally show ?thesis .
qed

subsection \<open>Moving a dated file\<close>

text \<open>
  Claim C1, as amended. For a file whose base name parses strictly to a date \<open>d\<close>, that is
  not today's file and whose path does not begin with the target folder path, and provided
  both calls of \<open>ensureFolderExists\<close> on the target folder return without a fault,
  \<open>handleOldDailyFile\<close> issues one rename of the file to
  \<^verbatim>\<open>base/format(d, yearlyFolderFormat)/format(d, monthlyFolderFormat)/<name>\<close>, the full name
  with its extension, and when that rename succeeds it returns the file's name.
\<close>

theorem dated_file_moved:
  assumes "parse_strict h (fileBaseName file) (dailyNoteFormat cfg) = Some d"
    and "fileBaseName file \<noteq> format h (now h) (dailyNoteFormat cfg)"
    and "\<not> prefix (targetFolderPath h cfg d) (path file)"
    and "ensureFolderExists h (targetFolderPath h cfg d) w = (Inr (), w1)"
    and "ensureFolderExists h (targetFolderPath h cfg d) w1 = (Inr (), w2)"
    and "rename h (vault w2) file
           (baseJournalFolder cfg @ ''/'' @ format h d (yearlyFolderFormat cfg) @ ''/''
              @ format h d (monthlyFolderFormat cfg) @ ''/'' @ name file) = (out, v')"
  shows \<open>vault (snd (handleOldDailyFile h cfg file w)) = v'
         \<and> RenameCall file
              (baseJournalFolder cfg @ ''/'' @ format h d (yearlyFolderFormat cfg) @ ''/''
                 @ format h d (monthlyFolderFormat cfg) @ ''/'' @ name file) out
             \<in> set (trace (snd (handleOldDailyFile h cfg file w)))
         \<and> (out = None \<longrightarrow>
              handleOldDailyFile h cfg file w =
                (Inr (Some (name file)),
                 w2\<lparr>vault := v',
                  trace := trace w2 @
                    [RenameCall file
                       (baseJournalFolder cfg @ ''/'' @ format h d (yearlyFolderFormat cfg) @ ''/''
                          @ format h d (monthlyFolderFormat cfg) @ ''/'' @ name file) None,
                     ConsoleLog (''Moved "'' @ name file @ ''" to folder: ''
                        @ targetFolderPath h cfg d)]\<rparr>))\<close>
proof -
  have "handleOldDailyFile h cfg file w = moveFile h file (targetFolderPath h cfg d) w2"
    using assms(1-5) by (rule handle_reaches_move)
  with assms(6) show ?thesis
    by (cases out) (simp_all add: moveFile_def emit_def targetFolderPath_def)
qed

text \<open>
  The claim as first stated promises the rename for every such file. On a vault that
  rejects the creation of the target folder the fault leaves \<open>handleOldDailyFile\<close> before
  any rename is issued.
\<close>

theorem dated_file_moved_counterexample:
  \<open>parse_strict (demo_host june1) (fileBaseName jan15_md) (dailyNoteFormat DEFAULT_SETTINGS)
     = Some jan15
   \<and> fileBaseName jan15_md
       \<noteq> format (demo_host june1) (now (demo_host june1)) (dailyNoteFormat DEFAULT_SETTINGS)
   \<and> \<not> prefix (targetFolderPath (demo_host june1) DEFAULT_SETTINGS jan15) (path jan15_md)
   \<and> handleOldDailyFile (demo_host june1) DEFAULT_SETTINGS jan15_md
        \<lparr>vault = flat_vault\<lparr>readOnly := True\<rparr>, trace = []\<rparr>
       = (Inl (Fault ''EACCES: permission denied''),
          \<lparr>vault = flat_vault\<lparr>readOnly := True\<rparr>,
           trace = [CreateFolderCall ''1 - journal/2025/01-2025''
                      (Some (Fault ''EACCES: permission denied''))]\<rparr>)\<close>
  by (simp add: handleOldDailyFile_def demo_simps)

theorem dated_file_moved_witness:
  \<open>parse_strict (demo_host june1) (fileBaseName jan15_md) (dailyNoteFormat DEFAULT_SETTINGS)
     = Some jan15
   \<and> fileBaseName jan15_md
       \<noteq> format (demo_host june1) (now (demo_host june1)) (dailyNoteFormat DEFAULT_SETTINGS)
   \<and> \<not> prefix (targetFolderPath (demo_host june1) DEFAULT_SETTINGS jan15) (path jan15_md)
   \<and> handleOldDailyFile (demo_host june1) DEFAULT_SETTINGS jan15_md
        \<lparr>vault = flat_vault, trace = []\<rparr>
       = (Inr (Some ''2025-01-15.md''),
          \<lparr>vault = \<lparr>folders = [''1 - journal'', ''1 - journal/2025/01-2025''],
                    files = [''1 - journal/notes.md'', ''1 - journal/2025/01-2025/2025-01-15.md''],
                    readOnly = False\<rparr>,
           trace = [CreateFolderCall ''1 - journal/2025/01-2025'' None,
                    RenameCall jan15_md ''1 - journal/2025/01-2025/2025-01-15.md'' None,
                    ConsoleLog ''Moved "2025-01-15.md" to folder: 1 - journal/2025/01-2025'']\<rparr>)\<close>
proof -
  let ?h = "demo_host june1"
  let ?w1 = "\<lparr>vault = flat_vault\<lparr>folders := [''1 - journal'', ''1 - journal/2025/01-2025'']\<rparr>,
              trace = [CreateFolderCall ''1 - journal/2025/01-2025'' None]\<rparr>"
  have p: "parse_strict ?h (fileBaseName jan15_md) (dailyNoteFormat DEFAULT_SETTINGS) = Some jan15"
    by (simp add: demo_simps)
  have t: "fileBaseName jan15_md \<noteq> format ?h (now ?h) (dailyNoteFormat DEFAULT_SETTINGS)"
    by (simp add: demo_simps)
  have g: "\<not> prefix (targetFolderPath ?h DEFAULT_SETTINGS jan15) (path jan15_md)"
    by (simp add: demo_simps)
  have e1: "ensureFolderExists ?h (targetFolderPath ?h DEFAULT_SETTINGS jan15)
              \<lparr>vault = flat_vault, trace = []\<rparr> = (Inr (), ?w1)"
    by (simp add: demo_simps)
  have e2: "ensureFolderExists ?h (targetFolderPath ?h DEFAULT_SETTINGS jan15) ?w1 = (Inr (), ?w1)"
    by (simp add: demo_simps)
  have r: "rename ?h (vault ?w1) jan15_md
             (baseJournalFolder DEFAULT_SETTINGS @ ''/''
                @ format ?h jan15 (yearlyFolderFormat DEFAULT_SETTINGS) @ ''/''
                @ format ?h jan15 (monthlyFolderFormat DEFAULT_SETTINGS) @ ''/'' @ name jan15_md)
           = (None,
              \<lparr>folders = [''1 - journal'', ''1 - journal/2025/01-2025''],
               files = [''1 - journal/notes.md'', ''1 - journal/2025/01-2025/2025-01-15.md''],
               readOnly = False\<rparr>)"
    by (simp add: demo_simps)
  from dated_file_moved [OF p t g e1 e2 r] p t g show ?thesis
    by (simp add: demo_simps)
qed

subsection \<open>A file already under its target folder\<close>

text \<open>
  Claim C5, as amended. For a dated file, not today's, whose path begins with the target
  folder path (a plain string prefix, so \<^verbatim>\<open>j/2025/03\<close> matches \<^verbatim>\<open>j/2025/030-extra/x\<close>),
  \<open>handleOldDailyFile\<close> issues no rename; it returns null when ensuring the target folder
  returned without a fault, and otherwise it fails with that fault.
\<close>

theorem already_placed_skipped:
  assumes "parse_strict h (fileBaseName file) (dailyNoteFormat cfg) = Some d"
    and "fileBaseName file \<noteq> format h (now h) (dailyNoteFormat cfg)"
    and "prefix (targetFolderPath h cfg d) (path file)"
    and "ensureFolderExists h (targetFolderPath h cfg d) w = (r, w1)"
  shows \<open>(\<forall>g q out. RenameCall g q out \<in> set (trace (snd (handleOldDailyFile h cfg file w)))
            \<longrightarrow> RenameCall g q out \<in> set (trace w))
         \<and> (r = Inr () \<longrightarrow>
              handleOldDailyFile h cfg file w =
                (Inr None,
                 w1\<lparr>trace := trace w1 @
                    [ConsoleLog (''Skipping "'' @ name file @ ''" (already in correct folder)'')]\<rparr>))
         \<and> (\<forall>e. r = Inl e \<longrightarrow> handleOldDailyFile h cfg file w = (Inl e, w1))\<close>
proof -
  have \<open>handleOldDailyFile h cfg file w =
          (case r of Inl e \<Rightarrow> (Inl e, w1)
           | Inr u \<Rightarrow> (Inr None,
               w1\<lparr>trace := trace w1 @
                 [ConsoleLog (''Skipping "'' @ name file @ ''" (already in correct folder)'')]\<rparr>))\<close>
    using assms by (simp add: handleOldDailyFile_def emit_def split: sum.splits)
  then show ?thesis
    using ensureFolderExists_renames [OF assms(4)]
    by (cases r) auto
qed

text \<open>
  The claim as first stated has null returned for every such file. On a read-only vault
  the target folder \<^verbatim>\<open>j/2025/03\<close> cannot be created and the call fails instead.
\<close>

theorem already_placed_skipped_counterexample:
  \<open>parse_strict (demo_host june1) (fileBaseName extra_md) (dailyNoteFormat short_settings)
     = Some mar10
   \<and> fileBaseName extra_md
       \<noteq> format (demo_host june1) (now (demo_host june1)) (dailyNoteFormat short_settings)
   \<and> prefix (targetFolderPath (demo_host june1) short_settings mar10) (path extra_md)
   \<and> handleOldDailyFile (demo_host june1) short_settings extra_md
        \<lparr>vault = extra_vault\<lparr>readOnly := True\<rparr>, trace = []\<rparr>
       = (Inl (Fault ''EACCES: permission denied''),
          \<lparr>vault = extra_vault\<lparr>readOnly := True\<rparr>,
           trace = [CreateFolderCall ''j/2025/03''
                      (Some (Fault ''EACCES: permission denied''))]\<rparr>)\<close>
  by (simp add: handleOldDailyFile_def demo_simps)

theorem already_placed_skipped_witness:
  \<open>targetFolderPath (demo_host june1) short_settings mar10 = ''j/2025/03''
   \<and> path extra_md = ''j/2025/030-extra/2025-03-10.md''
   \<and> handleOldDailyFile (demo_host june1) short_settings extra_md
        \<lparr>vault = extra_vault, trace = []\<rparr>
       = (Inr None,
          \<lparr>vault = extra_vault\<lparr>folders :=
                     [''j'', ''j/2025'', ''j/2025/030-extra'', ''j/2025/03'']\<rparr>,
           trace = [CreateFolderCall ''j/2025/03'' None,
                    ConsoleLog ''Skipping "2025-03-10.md" (already in correct folder)'']\<rparr>)\<close>
proof -
  let ?h = "demo_host june1"
  let ?w1 = "\<lparr>vault = extra_vault\<lparr>folders :=
                [''j'', ''j/2025'', ''j/2025/030-extra'', ''j/2025/03'']\<rparr>,
              trace = [CreateFolderCall ''j/2025/03'' None]\<rparr>"
  have p: "parse_strict ?h (fileBaseName extra_md) (dailyNoteFormat short_settings) = Some mar10"
    by (simp add: demo_simps)
  have t: "fileBaseName extra_md \<noteq> format ?h (now ?h) (dailyNoteFormat short_settings)"
    by (simp add: demo_simps)
  have g: "prefix (targetFolderPath ?h short_settings mar10) (path extra_md)"
    by (simp add: demo_simps)
  have e: "ensureFolderExists ?h (targetFolderPath ?h short_settings mar10)
             \<lparr>vault = extra_vault, trace = []\<rparr> = (Inr (), ?w1)"
    by (simp add: demo_simps)
  from already_placed_skipped [OF p t g e] show ?thesis
    by (simp add: demo_simps)
qed

subsection \<open>A rename that fails\<close>


subsection \<open>The target folder path\<close>

text \<open>
  Claim C2, as amended. The target folder path is a function of the base folder, the date
  and the two folder formats alone, and it is
  \<^verbatim>\<open>base + "/" + format(date, yearFmt) + "/" + format(date, monthFmt)\<close>: the month folder
  under the year folder under the base. It is never the longer string of the claim as
  first stated, in which base and year appear twice, and it reads neither the vault, nor
  the current date, nor any other setting.
\<close>

theorem target_folder_nested:
  "targetFolderPath h cfg d =
     baseJournalFolder cfg @ ''/'' @ format h d (yearlyFolderFormat cfg) @ ''/''
       @ format h d (monthlyFolderFormat cfg)
   \<and> targetFolderPath h cfg d \<noteq>
     baseJournalFolder cfg @ ''/'' @ format h d (yearlyFolderFormat cfg) @ ''/''
       @ baseJournalFolder cfg @ ''/'' @ format h d (yearlyFolderFormat cfg) @ ''/''
       @ format h d (monthlyFolderFormat cfg)
   \<and> prefix (baseJournalFolder cfg @ ''/'' @ format h d (yearlyFolderFormat cfg) @ ''/'')
       (targetFolderPath h cfg d)
   \<and> targetFolderPath
         (h\<lparr>now := t, adapter_exists := ex, createFolder := cf, rename := rn,
            getAbstractFileByPath := ga\<rparr>)
         (cfg\<lparr>dailyNoteFormat := f, createYearFolders := a, createMonthFolders := b\<rparr>) d
     = targetFolderPath h cfg d"
proof -
  have "m \<noteq> b @ ''/'' @ y @ ''/'' @ m" for m b y :: string
  proof
    assume "m = b @ ''/'' @ y @ ''/'' @ m"
    then have "length m = length (b @ ''/'' @ y @ ''/'' @ m)" by (rule arg_cong)
    then show False by simp
  qed
  then show ?thesis by (simp add: targetFolderPath_def)
qed

theorem target_folder_nested_counterexample:
  "targetFolderPath (demo_host june1) DEFAULT_SETTINGS jan15 = ''1 - journal/2025/01-2025''
   \<and> baseJournalFolder DEFAULT_SETTINGS @ ''/''
       @ format (demo_host june1) jan15 (yearlyFolderFormat DEFAULT_SETTINGS) @ ''/''
       @ baseJournalFolder DEFAULT_SETTINGS @ ''/''
       @ format (demo_host june1) jan15 (yearlyFolderFormat DEFAULT_SETTINGS) @ ''/''
       @ format (demo_host june1) jan15 (monthlyFolderFormat DEFAULT_SETTINGS)
     = ''1 - journal/2025/1 - journal/2025/01-2025''
   \<and> targetFolderPath (demo_host june1) DEFAULT_SETTINGS jan15 \<noteq>
     baseJournalFolder DEFAULT_SETTINGS @ ''/''
       @ format (demo_host june1) jan15 (yearlyFolderFormat DEFAULT_SETTINGS) @ ''/''
       @ baseJournalFolder DEFAULT_SETTINGS @ ''/''
       @ format (demo_host june1) jan15 (yearlyFolderFormat DEFAULT_SETTINGS) @ ''/''
       @ format (demo_host june1) jan15 (monthlyFolderFormat DEFAULT_SETTINGS)"
  by (simp add: demo_simps)

subsection \<open>What counts as the extension\<close>

text \<open>
  Claim C10. Extension stripping removes only a final dot-suffix, a last dot followed by
  one or more characters that are neither a dot nor a slash: \<^verbatim>\<open>2025-01-15.tar.gz\<close> gives
  \<^verbatim>\<open>2025-01-15.tar\<close>, any other name is parsed unchanged, in particular a name with no dot;
  so a file without extension that is named like a date goes the way of a dated file and
  reaches the move.
\<close>

theorem extension_stripping:
  "fileBaseName \<lparr>path = p, name = ''2025-01-15.tar.gz''\<rparr> = ''2025-01-15.tar''
   \<and> (name file = b @ ''.'' @ e \<and> e \<noteq> [] \<and> list_all extChar e \<longrightarrow> fileBaseName file = b)
   \<and> (fileBaseName file \<noteq> name file \<longrightarrow>
        (\<exists>b e. name file = b @ ''.'' @ e \<and> e \<noteq> [] \<and> list_all extChar e))
   \<and> (CHR ''.'' \<notin> set (name file) \<longrightarrow> fileBaseName file = name file)
   \<and> (CHR ''.'' \<notin> set (name file)
        \<and> parse_strict h (name file) (dailyNoteFormat cfg) = Some d
        \<and> name file \<noteq> format h (now h) (dailyNoteFormat cfg)
        \<and> \<not> prefix (targetFolderPath h cfg d) (path file)
        \<and> ensureFolderExists h (targetFolderPath h cfg d) w = (Inr (), w1)
        \<and> ensureFolderExists h (targetFolderPath h cfg d) w1 = (Inr (), w2)
        \<longrightarrow> handleOldDailyFile h cfg file w = moveFile h file (targetFolderPath h cfg d) w2)"
proof -
  have 1: "fileBaseName \<lparr>path = p, name = ''2025-01-15.tar.gz''\<rparr> = ''2025-01-15.tar''"
    by (simp add: fileBaseName_def extChar_def)
  have 2: "name file = b @ ''.'' @ e \<and> e \<noteq> [] \<and> list_all extChar e \<longrightarrow> fileBaseName file = b"
    using replaceExt_suffix [of e b] by (auto simp: fileBaseName_def)
  have 3: "fileBaseName file \<noteq> name file \<longrightarrow>
        (\<exists>b e. name file = b @ ''.'' @ e \<and> e \<noteq> [] \<and> list_all extChar e)"
    unfolding fileBaseName_def by (blast dest: replaceExt_changed)
  have 4: "CHR ''.'' \<notin> set (name file) \<longrightarrow> fileBaseName file = name file"
    by (simp add: fileBaseName_def replaceExt_no_dot)
  have 5: "CHR ''.'' \<notin> set (name file)
        \<and> parse_strict h (name file) (dailyNoteFormat cfg) = Some d
        \<and> name file \<noteq> format h (now h) (dailyNoteFormat cfg)
        \<and> \<not> prefix (targetFolderPath h cfg d) (path file)
        \<and> ensureFolderExists h (targetFolderPath h cfg d) w = (Inr (), w1)
        \<and> ensureFolderExists h (targetFolderPath h cfg d) w1 = (Inr (), w2)
        \<longrightarrow> handleOldDailyFile h cfg file w = moveFile h file (targetFolderPath h cfg d) w2"
  proof (intro impI, elim conjE)
    assume a: "CHR ''.'' \<notin> set (name file)"
      and "parse_strict h (name file) (dailyNoteFormat cfg) = Some d"
      and "name file \<noteq> format h (now h) (dailyNoteFormat cfg)"
      and "\<not> prefix (targetFolderPath h cfg d) (path file)"
      and "ensureFolderExists h (targetFolderPath h cfg d) w = (Inr (), w1)"
      and "ensureFolderExists h (targetFolderPath h cfg d) w1 = (Inr (), w2)"
    moreover from a have "fileBaseName file = name file"
      by (simp add: fileBaseName_def replaceExt_no_dot)
    ultimately show "handleOldDailyFile h cfg file w = moveFile h file (targetFolderPath h cfg d) w2"
      by (simp add: handle_reaches_move)
  qed
  from 1 2 3 4 5 show ?thesis by blast
qed

theorem extension_stripping_witness:
  \<open>fileBaseName bare_jan15 = ''2025-01-15''
   \<and> handleOldDailyFile (demo_host june1) DEFAULT_SETTINGS bare_jan15
        \<lparr>vault = bare_name_vault, trace = []\<rparr>
     = (Inr (Some ''2025-01-15''),
        \<lparr>vault = bare_name_vault\<lparr>files := [''1 - journal/2025/01-2025/2025-01-15'']\<rparr>,
         trace = [RenameCall bare_jan15 ''1 - journal/2025/01-2025/2025-01-15'' None,
                  ConsoleLog ''Moved "2025-01-15" to folder: 1 - journal/2025/01-2025'']\<rparr>)\<close>
proof -
  let ?h = "demo_host june1"
  let ?w = "\<lparr>vault = bare_name_vault, trace = []\<rparr>"
  note all = extension_stripping [of "''1 - journal/2025-01-15''" bare_jan15 "''2025-01-15''" "''x''"
      ?h DEFAULT_SETTINGS jan15 ?w ?w ?w]
  have n: "CHR ''.'' \<notin> set (name bare_jan15)"
    by (simp add: bare_jan15_def)
  have b: "fileBaseName bare_jan15 = name bare_jan15"
    using all n by blast
  have pre: "CHR ''.'' \<notin> set (name bare_jan15)
        \<and> parse_strict ?h (name bare_jan15) (dailyNoteFormat DEFAULT_SETTINGS) = Some jan15
        \<and> name bare_jan15 \<noteq> format ?h (now ?h) (dailyNoteFormat DEFAULT_SETTINGS)
        \<and> \<not> prefix (targetFolderPath ?h DEFAULT_SETTINGS jan15) (path bare_jan15)
        \<and> ensureFolderExists ?h (targetFolderPath ?h DEFAULT_SETTINGS jan15) ?w = (Inr (), ?w)
        \<and> ensureFolderExists ?h (targetFolderPath ?h DEFAULT_SETTINGS jan15) ?w = (Inr (), ?w)"
    by (simp add: demo_simps)
  have m: "handleOldDailyFile ?h DEFAULT_SETTINGS bare_jan15 ?w
             = moveFile ?h bare_jan15 (targetFolderPath ?h DEFAULT_SETTINGS jan15) ?w"
    using all pre by blast
  show ?thesis
    unfolding m b
    by (simp add: moveFile_def Let_def demo_simps)
qed

subsection \<open>Sweeping twice\<close>




end
